theory Spec2Isabelle
  imports Main "HOL-Library.Sublist"
begin

section \<open>Data model\<close>

text \<open>
  The helpers of \<^verbatim>\<open>src/helpers.js\<close> work on module objects
  \<^verbatim>\<open>{name, dev}\<close>. JavaScript strings are modelled as HOL strings; a
  \<^typ>\<open>char\<close> stands for one code unit, so the texts considered are those whose code
  units fit in eight bits (in particular U+2028 and U+2029 do not occur).
\<close>

record module =
  name :: string
  dev :: bool

text \<open>
  The JavaScript values that reach the helpers: \<^verbatim>\<open>undefined\<close>, booleans, strings
  and module objects.
\<close>

datatype jsval = JUndefined | JBool bool | JStr string | JModule module

datatype exn = TypeError | SyntaxError | IOError string | ExternalError string

text \<open>\<^verbatim>\<open>String(v)\<close>, as applied by \<^verbatim>\<open>RegExp.prototype.test\<close> and by \<^verbatim>\<open>+\<close> on a string.\<close>

fun ToString :: "jsval \<Rightarrow> string" where
  "ToString JUndefined = ''undefined''"
| "ToString (JBool b) = (if b then ''true'' else ''false'')"
| "ToString (JStr s) = s"
| "ToString (JModule m) = ''[object Object]''"

text \<open>\<^verbatim>\<open>!!v\<close>: only \<^verbatim>\<open>undefined\<close>, \<^verbatim>\<open>false\<close> and the empty string are falsy here.\<close>

fun truthy :: "jsval \<Rightarrow> bool" where
  "truthy JUndefined = False"
| "truthy (JBool b) = b"
| "truthy (JStr s) = (s \<noteq> [])"
| "truthy (JModule m) = True"

text \<open>
  The parameter pattern \<^verbatim>\<open>({name, dev}) => ...\<close> reads the property \<^verbatim>\<open>name\<close> of
  the argument. Destructuring \<^verbatim>\<open>undefined\<close> throws a TypeError; a primitive string
  or boolean is boxed and has no property \<^verbatim>\<open>name\<close>, so the variable is
  \<^verbatim>\<open>undefined\<close>.
\<close>

fun destructure_name :: "jsval \<Rightarrow> exn + jsval" where
  "destructure_name JUndefined = Inl TypeError"
| "destructure_name (JBool b) = Inr JUndefined"
| "destructure_name (JStr s) = Inr JUndefined"
| "destructure_name (JModule m) = Inr (JStr (name m))"

section \<open>String and array primitives of the language\<close>

text \<open>\<^verbatim>\<open>s.indexOf(pat)\<close>: index of the first occurrence, \<open>-1\<close> when there is none.\<close>

fun str_indexOf :: "string \<Rightarrow> string \<Rightarrow> int" where
  "str_indexOf [] pat = (if pat = [] then 0 else - 1)"
| "str_indexOf (c # cs) pat =
     (if prefix pat (c # cs) then 0
      else (let r = str_indexOf cs pat in if r < 0 then - 1 else r + 1))"

text \<open>\<^verbatim>\<open>xs.indexOf(x)\<close> on an array (strict equality of strings).\<close>

fun arr_indexOf :: "'a list \<Rightarrow> 'a \<Rightarrow> int" where
  "arr_indexOf [] x = - 1"
| "arr_indexOf (y # ys) x =
     (if y = x then 0
      else (let r = arr_indexOf ys x in if r < 0 then - 1 else r + 1))"

text \<open>\<^verbatim>\<open>s.replace(pat, rep)\<close> with a string pattern: the first occurrence only.\<close>

fun str_replace :: "string \<Rightarrow> string \<Rightarrow> string \<Rightarrow> string" where
  "str_replace [] pat rep = (if pat = [] then rep else [])"
| "str_replace (c # cs) pat rep =
     (if prefix pat (c # cs) then rep @ drop (length pat) (c # cs)
      else c # str_replace cs pat rep)"

text \<open>
  \<^verbatim>\<open>s.substring(start, end)\<close>: both indices are clamped to \<open>[0, length]\<close> and
  swapped when out of order.
\<close>

definition substring :: "string \<Rightarrow> int \<Rightarrow> int \<Rightarrow> string" where
  "substring s start end =
     (let n = int (length s);
          a = min (max start 0) n;
          b = min (max end 0) n;
          lo = min a b;
          hi = max a b
      in take (nat (hi - lo)) (drop (nat lo) s))"

text \<open>\<^verbatim>\<open>s.substring(start)\<close>: up to the end of the string.\<close>

definition substring_from :: "string \<Rightarrow> int \<Rightarrow> string" where
  "substring_from s start = substring s start (int (length s))"

section \<open>The two regular expressions\<close>

text \<open>
  \<^verbatim>\<open>new RegExp("^([a-z0-9-_]{1,})$")\<close>: one or more characters of the class, which
  holds the ranges \<^verbatim>\<open>a-z\<close> and \<^verbatim>\<open>0-9\<close> and the two characters \<^verbatim>\<open>-\<close> and
  \<^verbatim>\<open>_\<close>; without the \<^verbatim>\<open>m\<close> flag the anchors are the ends of the input.
\<close>

definition in_range :: "char \<Rightarrow> char \<Rightarrow> char \<Rightarrow> bool" where
  "in_range lo hi c \<longleftrightarrow> (of_char lo :: nat) \<le> of_char c \<and> (of_char c :: nat) \<le> of_char hi"

definition name_char :: "char \<Rightarrow> bool" where
  "name_char c \<longleftrightarrow>
     in_range CHR ''a'' CHR ''z'' c \<or> in_range CHR ''0'' CHR ''9'' c \<or> c = CHR ''-'' \<or> c = CHR ''_''"

definition regex_test :: "string \<Rightarrow> bool" where
  "regex_test s \<longleftrightarrow> s \<noteq> [] \<and> list_all name_char s"

text \<open>
  \<^verbatim>\<open>/require\((.*?)\)/g\<close>. The dot matches any character but a line terminator.
  The lazy star first tries to go on with \<^verbatim>\<open>\)\<close> and consumes one more character
  only when that fails.
\<close>

definition line_terminator :: "char \<Rightarrow> bool" where
  "line_terminator c \<longleftrightarrow> c = CHR 0x0A \<or> c = CHR 0x0D"

fun lazy_dots_close :: "string \<Rightarrow> string \<Rightarrow> string option" where
  "lazy_dots_close acc [] = None"
| "lazy_dots_close acc (c # cs) =
     (if c = CHR '')'' then Some (acc @ '')'')
      else if line_terminator c then None
      else lazy_dots_close (acc @ [c]) cs)"

text \<open>The match of the pattern that starts at the first character of the text, if any.\<close>

definition match_at :: "string \<Rightarrow> string option" where
  "match_at s =
     (if prefix ''require('' s then lazy_dots_close ''require('' (drop 8 s) else None)"

text \<open>
  \<^verbatim>\<open>content.match(pattern)\<close> with the \<^verbatim>\<open>g\<close> flag: all matches from left to right,
  the search resuming at the end of the previous match. The counter is the number of
  characters still covered by the previous match.
\<close>

fun match_scan :: "nat \<Rightarrow> string \<Rightarrow> string list" where
  "match_scan k [] = []"
| "match_scan (Suc k) (c # cs) = match_scan k cs"
| "match_scan 0 (c # cs) =
     (case match_at (c # cs) of
        Some m \<Rightarrow> m # match_scan (length m - 1) cs
      | None \<Rightarrow> match_scan 0 cs)"

text \<open>The result is \<^verbatim>\<open>null\<close> when nothing matches.\<close>

definition str_match :: "string \<Rightarrow> string list option" where
  "str_match content = (case match_scan 0 content of [] \<Rightarrow> None | ms \<Rightarrow> Some ms)"

section \<open>Extraction and validation\<close>

text \<open>
  \<^verbatim>\<open>isValidModule\<close> (lines 152--155) destructures its argument and tests the
  regular expression on the string conversion of \<^verbatim>\<open>name\<close>.
\<close>

definition isValidModule :: "jsval \<Rightarrow> exn + bool" where
  "isValidModule v =
     (case destructure_name v of
        Inl e \<Rightarrow> Inl e
      | Inr n \<Rightarrow> Inr (regex_test (ToString n)))"

text \<open>
  The loop of \<^verbatim>\<open>getModulesFromFile\<close> (lines 140--146) over the matches, with the
  array \<^verbatim>\<open>modules\<close> as accumulator. The validator is called on the string itself.
\<close>

definition strip_call :: "string \<Rightarrow> string" where
  "strip_call m =
     (let match = str_replace m ''require'' '''';
          match = substring_from match 2;
          match = substring match 0 (int (length match) - 2)
      in match)"

fun collect_modules :: "string list \<Rightarrow> string list \<Rightarrow> exn + string list" where
  "collect_modules [] modules = Inr modules"
| "collect_modules (m # ms) modules =
     (let match = strip_call m in
      case isValidModule (JStr match) of
        Inl e \<Rightarrow> Inl e
      | Inr ok \<Rightarrow> collect_modules ms (if ok then modules @ [match] else modules))"

text \<open>
  \<^verbatim>\<open>getModulesFromFile\<close> (lines 135--148). The file system is a map from paths to
  contents; reading a missing file throws.
\<close>

definition getModulesFromFile :: "(string \<rightharpoonup> string) \<Rightarrow> string \<Rightarrow> exn + string list" where
  "getModulesFromFile files path =
     (case files path of
        None \<Rightarrow> Inl (IOError path)
      | Some content \<Rightarrow>
          (case str_match content of
             None \<Rightarrow> Inr []
           | Some matches \<Rightarrow> collect_modules matches []))"

section \<open>Classification, difference and deduplication\<close>

text \<open>
  \<^verbatim>\<open>isBuiltInModule\<close> comes from the package \<^verbatim>\<open>is-builtin-module\<close>; it is a
  parameter of the model.
\<close>

definition removeBuiltInModules :: "(string \<Rightarrow> bool) \<Rightarrow> module list \<Rightarrow> module list" where
  "removeBuiltInModules isBuiltInModule modules =
     filter (\<lambda>m. \<not> isBuiltInModule (name m)) modules"

definition removeLocalFiles :: "module list \<Rightarrow> module list" where
  "removeLocalFiles modules = filter (\<lambda>m. str_indexOf (name m) ''./'' \<noteq> 0) modules"

definition filterRegistryModules :: "(string \<Rightarrow> bool) \<Rightarrow> module list \<Rightarrow> module list" where
  "filterRegistryModules isBuiltInModule modules =
     (let modules = removeBuiltInModules isBuiltInModule modules;
          modules = removeLocalFiles modules
      in modules)"

definition getNamesFromModules :: "module list \<Rightarrow> string list" where
  "getNamesFromModules modules = map name modules"

definition diff :: "module list \<Rightarrow> module list \<Rightarrow> module list" where
  "diff first second =
     (let namesFromSecond = getNamesFromModules second
      in filter (\<lambda>m. arr_indexOf namesFromSecond (name m) < 0) first)"

text \<open>
  The loop of \<^verbatim>\<open>deduplicateSimilarModules\<close> (lines 252--257) with its two arrays
  as accumulators.
\<close>

fun dedup_loop :: "module list \<Rightarrow> module list \<Rightarrow> string list \<Rightarrow> module list" where
  "dedup_loop [] dedupedModules dedupedModuleNames = dedupedModules"
| "dedup_loop (m # ms) dedupedModules dedupedModuleNames =
     (if arr_indexOf dedupedModuleNames (name m) = - 1
      then dedup_loop ms (dedupedModules @ [m]) (dedupedModuleNames @ [name m])
      else dedup_loop ms dedupedModules dedupedModuleNames)"

definition deduplicateSimilarModules :: "module list \<Rightarrow> module list" where
  "deduplicateSimilarModules modules = dedup_loop modules [] []"

definition deduplicate :: "module list \<Rightarrow> module list" where
  "deduplicate modules =
     (let dedupedModules = [];
          testModules = filter (\<lambda>m. dev m) modules;
          dedupedModules = dedupedModules @ deduplicateSimilarModules testModules;
          prodModules = filter (\<lambda>m. \<not> dev m) modules;
          dedupedModules = dedupedModules @ deduplicateSimilarModules prodModules
      in dedupedModules)"

section \<open>File discovery\<close>

text \<open>
  \<^verbatim>\<open>getFiles\<close> (lines 117--119). \<^verbatim>\<open>glob.sync\<close> is a parameter: for a fixed
  state of the file system it maps a pattern and an ignore list to the matching paths
  under the current working directory.
\<close>

definition getFiles :: "(string \<Rightarrow> string list \<Rightarrow> string list) \<Rightarrow> jsval \<Rightarrow> string list" where
  "getFiles glob_sync path = glob_sync ''**/*.js'' [''node_modules/**/*'']"

section \<open>Effects: spinner, console and external commands\<close>

datatype symbol = Sym_error | Sym_warning | Sym_success

datatype event =
    SpinnerStart string string
  | SpinnerStop
  | ConsoleLog symbol string
  | Exec string

text \<open>\<^verbatim>\<open>startSpinner\<close> (lines 96--102) and \<^verbatim>\<open>stopSpinner\<close> (lines 104--112).\<close>

definition startSpinner :: "string \<Rightarrow> string \<Rightarrow> event list" where
  "startSpinner message type = [SpinnerStart message type]"

definition stopSpinner :: "string \<Rightarrow> string \<Rightarrow> event list" where
  "stopSpinner message type =
     SpinnerStop #
     (if message = [] then []
      else (let symbol =
                  (if type = ''red'' then Sym_error
                   else if type = ''yellow'' then Sym_warning
                   else Sym_success)
            in [ConsoleLog symbol message]))"

text \<open>
  \<^verbatim>\<open>runCommand\<close> (lines 87--90). \<^verbatim>\<open>syncExec\<close> is a parameter giving the exit
  status of a command; \<^verbatim>\<open>!response.status\<close> is true for status \<open>0\<close>.
\<close>

definition runCommand :: "(string \<Rightarrow> int) \<Rightarrow> string \<Rightarrow> event list \<times> bool" where
  "runCommand syncExec command =
     (let status = syncExec command in ([Exec command], status = 0))"

section \<open>The popularity check\<close>

definition POPULARITY_THRESHOLD :: int where
  "POPULARITY_THRESHOLD = 10000"

text \<open>
  The callback handed to \<^verbatim>\<open>request\<close> (lines 208--211). The parameter
  \<open>json_downloads\<close> stands for \<^verbatim>\<open>JSON.parse(body).downloads\<close>, which throws on a
  malformed body.
\<close>

type_synonym callback = "jsval \<Rightarrow> jsval \<Rightarrow> string \<Rightarrow> exn + bool"

definition popularity_callback :: "(string \<Rightarrow> exn + int) \<Rightarrow> callback" where
  "popularity_callback json_downloads error response body =
     (case json_downloads body of
        Inl e \<Rightarrow> Inl e
      | Inr downloads \<Rightarrow> Inr (downloads > POPULARITY_THRESHOLD))"

text \<open>
  \<^verbatim>\<open>isModulePopular\<close> (lines 206--212). \<^verbatim>\<open>request\<close> is the function of the
  package \<^verbatim>\<open>sync-request\<close>, a parameter: it receives the method, the URL and the
  callback, and either throws or returns some value. The body of
  \<^verbatim>\<open>isModulePopular\<close> is a block with no \<^verbatim>\<open>return\<close> statement of its own, so a
  call that completes yields \<^verbatim>\<open>undefined\<close>.
\<close>

definition isModulePopular ::
  "(string \<Rightarrow> string \<Rightarrow> callback \<Rightarrow> exn + 'r) \<Rightarrow> (string \<Rightarrow> exn + int) \<Rightarrow> jsval \<Rightarrow> exn + jsval" where
  "isModulePopular request json_downloads v =
     (case destructure_name v of
        Inl e \<Rightarrow> Inl e
      | Inr n \<Rightarrow>
          (let url = ''https://apa.npmjs.org/downloads/point/last-month/'' @ ToString n in
           case request ''GET'' url (popularity_callback json_downloads) of
             Inl e \<Rightarrow> Inl e
           | Inr r \<Rightarrow> Inr JUndefined))"

section \<open>Install and uninstall\<close>

text \<open>
  \<^verbatim>\<open>installModule\<close> (lines 50--66). The result is the trace of effects together
  with the exception that escaped, if any. \<^verbatim>\<open>secureMode\<close> is the global flag of
  line 200; \<^verbatim>\<open>&&\<close> evaluates the popularity check only in secure mode, and the
  check receives the name string.
\<close>

definition installModule ::
  "bool \<Rightarrow> (string \<Rightarrow> string \<Rightarrow> callback \<Rightarrow> exn + 'r) \<Rightarrow> (string \<Rightarrow> exn + int) \<Rightarrow> (string \<Rightarrow> int) \<Rightarrow>
   module \<Rightarrow> event list \<times> (exn + unit)" where
  "installModule secureMode request json_downloads syncExec m =
     (let spinner = startSpinner (''Installing '' @ name m) ''green'';
          untrusted =
            (if secureMode
             then (case isModulePopular request json_downloads (JStr (name m)) of
                     Inl e \<Rightarrow> Inl e
                   | Inr popular \<Rightarrow> Inr (\<not> truthy popular))
             else Inr False)
      in case untrusted of
           Inl e \<Rightarrow> (spinner, Inl e)
         | Inr True \<Rightarrow> (spinner @ stopSpinner (name m @ '' not trusted'') ''yellow'', Inr ())
         | Inr False \<Rightarrow>
             (let command = ''npm install '' @ name m @ '' --save'';
                  message = name m @ '' installed'';
                  command = (if dev m then command @ ''-dev'' else command);
                  message = (if dev m then message @ '' in devDependencies'' else message);
                  (ran, success) = runCommand syncExec command
              in (spinner @ ran @
                    (if success then stopSpinner message ''green''
                     else stopSpinner (name m @ '' installation failed'') ''yellow''),
                  Inr ())))"

text \<open>\<^verbatim>\<open>uninstallModule\<close> (lines 70--81).\<close>

definition uninstallModule :: "(string \<Rightarrow> int) \<Rightarrow> module \<Rightarrow> event list \<times> (exn + unit)" where
  "uninstallModule syncExec m =
     (let spinner = startSpinner (''Uninstalling '' @ name m) ''red'';
          command = ''npm uninstall '' @ name m @ '' --save'';
          message = name m @ '' removed'';
          command = (if dev m then command @ ''-dev'' else command);
          message = (if dev m then message @ '' from devDependencies'' else message);
          (ran, success) = runCommand syncExec command
      in (spinner @ ran @ stopSpinner message ''red'', Inr ()))"

section \<open>Notions used to state the properties\<close>

text \<open>
  The specification of deduplication in its own words: the elements of the list whose
  name does not occur at an earlier position, in input order.
\<close>

definition first_occurrences :: "module list \<Rightarrow> module list" where
  "first_occurrences ms =
     map (\<lambda>i. ms ! i)
       (filter (\<lambda>i. name (ms ! i) \<notin> set (map name (take i ms))) [0..<length ms])"

text \<open>One iteration of the loop of \<^verbatim>\<open>deduplicateSimilarModules\<close> on its pair of arrays.\<close>

definition dedup_step :: "module list \<times> string list \<Rightarrow> module \<Rightarrow> module list \<times> string list" where
  "dedup_step st m =
     (if name m \<in> set (snd st) then st else (fst st @ [m], snd st @ [name m]))"

text \<open>
  A well-formed call expression \<^verbatim>\<open>require("x")\<close>, a stretch of text in which
  \<^verbatim>\<open>require(\<close> does not occur, and a file text made of such stretches with call
  expressions between them: \<open>g0\<close>, then each call followed by its own stretch.
\<close>

definition require_call :: "string \<Rightarrow> string" where
  "require_call x = ''require('' @ [CHR 0x22] @ x @ [CHR 0x22] @ '')''"

definition free_of_require :: "string \<Rightarrow> bool" where
  "free_of_require g \<longleftrightarrow> str_indexOf g ''require('' < 0"

definition source_text :: "string \<Rightarrow> (string \<times> string) list \<Rightarrow> string" where
  "source_text g0 calls = g0 @ concat (map (\<lambda>(x, g). require_call x @ g) calls)"

section \<open>Array search, difference and deduplication\<close>

lemma arr_indexOf_lower: "- 1 \<le> arr_indexOf xs x"
  by (induction xs) (auto simp: Let_def)

lemma arr_indexOf_neg_iff: "arr_indexOf xs x < 0 \<longleftrightarrow> x \<notin> set xs"
proof (induction xs)
  case Nil
  show ?case by simp
next
  case (Cons y ys)
  then show ?case
    using arr_indexOf_lower [of ys x] by (auto simp: Let_def)
qed

lemma arr_indexOf_minus_one_iff: "arr_indexOf xs x = - 1 \<longleftrightarrow> x \<notin> set xs"
  using arr_indexOf_lower [of xs x] arr_indexOf_neg_iff [of xs x] by linarith

lemma diff_filter: "diff a b = filter (\<lambda>m. name m \<notin> set (map name b)) a"
  by (simp add: diff_def getNamesFromModules_def arr_indexOf_neg_iff)

lemma dedup_loop_foldl: "dedup_loop ms dm dn = fst (foldl dedup_step (dm, dn) ms)"
  by (induction ms arbitrary: dm dn) (simp_all add: dedup_step_def arr_indexOf_minus_one_iff)

lemma first_occurrences_Nil: "first_occurrences [] = []"
  by (simp add: first_occurrences_def)

lemma first_occurrences_snoc:
  "first_occurrences (ms @ [m]) =
     first_occurrences ms @ (if name m \<in> set (map name ms) then [] else [m])"
proof -
  have "filter (\<lambda>i. name ((ms @ [m]) ! i) \<notin> set (map name (take i (ms @ [m])))) [0..<length ms]
        = filter (\<lambda>i. name (ms ! i) \<notin> set (map name (take i ms))) [0..<length ms]"
    by (rule filter_cong) (auto simp: nth_append)
  moreover have "map (\<lambda>i. (ms @ [m]) ! i) (filter (\<lambda>i. name (ms ! i) \<notin> set (map name (take i ms))) [0..<length ms])
        = map (\<lambda>i. ms ! i) (filter (\<lambda>i. name (ms ! i) \<notin> set (map name (take i ms))) [0..<length ms])"
    by (rule map_cong) (auto simp: nth_append)
  ultimately show ?thesis
    by (simp add: first_occurrences_def)
qed

lemma set_first_occurrences_names: "set (map name (first_occurrences ms)) = set (map name ms)"
  by (induction ms rule: rev_induct) (auto simp: first_occurrences_Nil first_occurrences_snoc)

lemma set_first_occurrences_subset: "set (first_occurrences ms) \<subseteq> set ms"
  by (induction ms rule: rev_induct) (auto simp: first_occurrences_Nil first_occurrences_snoc)

lemma distinct_first_occurrences: "distinct (map name (first_occurrences ms))"
proof (induction ms rule: rev_induct)
  case Nil
  show ?case by (simp add: first_occurrences_Nil)
next
  case (snoc m ms)
  have "name ` set (first_occurrences ms) = name ` set ms"
    using set_first_occurrences_names [of ms] by simp
  with snoc show ?case
    by (simp add: first_occurrences_snoc)
qed

lemma foldl_dedup_step:
  "foldl dedup_step ([], []) ms = (first_occurrences ms, map name (first_occurrences ms))"
proof (induction ms rule: rev_induct)
  case Nil
  show ?case by (simp add: first_occurrences_Nil)
next
  case (snoc m ms)
  have "set (map name (first_occurrences ms)) = set (map name ms)"
    by (rule set_first_occurrences_names)
  with snoc show ?case
    by (simp add: dedup_step_def first_occurrences_snoc)
qed

lemma deduplicateSimilarModules_first_occurrences:
  "deduplicateSimilarModules ms = first_occurrences ms"
  by (simp add: deduplicateSimilarModules_def dedup_loop_foldl foldl_dedup_step)

text \<open>
  Claim C4. For all module lists \<open>a\<close> and \<open>b\<close>, \<open>diff a b\<close> is the list of the
  elements of \<open>a\<close>, unchanged and in order, whose name is not the name of an element of
  \<open>b\<close>; the \<open>dev\<close> flags play no part in the comparison. With names \<open>a, b, c\<close>
  against \<open>b, c\<close> the result is the single module \<open>a\<close>, and the other way round it is
  empty, whatever the flags.
\<close>

theorem diff_by_name:
  "diff a b = filter (\<lambda>m. name m \<notin> set (map name b)) a
   \<and> diff [\<lparr>name = ''a'', dev = da\<rparr>, \<lparr>name = ''b'', dev = db\<rparr>, \<lparr>name = ''c'', dev = dc\<rparr>]
          [\<lparr>name = ''b'', dev = eb\<rparr>, \<lparr>name = ''c'', dev = ec\<rparr>] = [\<lparr>name = ''a'', dev = da\<rparr>]
   \<and> diff [\<lparr>name = ''b'', dev = eb\<rparr>, \<lparr>name = ''c'', dev = ec\<rparr>]
          [\<lparr>name = ''a'', dev = da\<rparr>, \<lparr>name = ''b'', dev = db\<rparr>, \<lparr>name = ''c'', dev = dc\<rparr>] = []"
  by (simp add: diff_filter)

text \<open>
  Claim C9. When the declared modules and the used modules have the same set of names,
  both differences are empty: nothing to install and nothing to remove.
\<close>

theorem diff_same_names_empty:
  assumes "set (getNamesFromModules declared) = set (getNamesFromModules used)"
  shows "diff used declared = [] \<and> diff declared used = []"
  using assms by (auto simp: diff_filter getNamesFromModules_def filter_empty_conv)

theorem diff_same_names_empty_witness:
  "set (getNamesFromModules [\<lparr>name = ''lodash'', dev = False\<rparr>, \<lparr>name = ''chalk'', dev = True\<rparr>])
     = set (getNamesFromModules [\<lparr>name = ''chalk'', dev = False\<rparr>, \<lparr>name = ''lodash'', dev = False\<rparr>, \<lparr>name = ''chalk'', dev = False\<rparr>])
   \<and> diff [\<lparr>name = ''chalk'', dev = False\<rparr>, \<lparr>name = ''lodash'', dev = False\<rparr>, \<lparr>name = ''chalk'', dev = False\<rparr>]
          [\<lparr>name = ''lodash'', dev = False\<rparr>, \<lparr>name = ''chalk'', dev = True\<rparr>] = []
   \<and> diff [\<lparr>name = ''lodash'', dev = False\<rparr>, \<lparr>name = ''chalk'', dev = True\<rparr>]
          [\<lparr>name = ''chalk'', dev = False\<rparr>, \<lparr>name = ''lodash'', dev = False\<rparr>, \<lparr>name = ''chalk'', dev = False\<rparr>] = []"
proof -
  have h: "set (getNamesFromModules [\<lparr>name = ''lodash'', dev = False\<rparr>, \<lparr>name = ''chalk'', dev = True\<rparr>])
     = set (getNamesFromModules [\<lparr>name = ''chalk'', dev = False\<rparr>, \<lparr>name = ''lodash'', dev = False\<rparr>, \<lparr>name = ''chalk'', dev = False\<rparr>])"
    by (auto simp: getNamesFromModules_def)
  show ?thesis using h diff_same_names_empty [OF h] by simp
qed

text \<open>
  Claim C5. \<open>deduplicate\<close> returns the first occurrences among the modules with
  \<open>dev\<close> set, followed by the first occurrences among the others; no pair of name and
  flag occurs twice in the result; and the three-element example of the specification
  gives one entry per partition, the development one first.
\<close>

theorem deduplicate_partitions:
  "deduplicate ms = first_occurrences (filter dev ms) @ first_occurrences (filter (\<lambda>m. \<not> dev m) ms)
   \<and> distinct (map (\<lambda>m. (name m, dev m)) (deduplicate ms))
   \<and> deduplicate [\<lparr>name = ''a'', dev = False\<rparr>, \<lparr>name = ''a'', dev = False\<rparr>, \<lparr>name = ''a'', dev = True\<rparr>]
       = [\<lparr>name = ''a'', dev = True\<rparr>, \<lparr>name = ''a'', dev = False\<rparr>]"
proof (intro conjI)
  show eq: "deduplicate ms = first_occurrences (filter dev ms) @ first_occurrences (filter (\<lambda>m. \<not> dev m) ms)"
    by (simp add: deduplicate_def deduplicateSimilarModules_first_occurrences)
  have d1: "distinct (map (\<lambda>m. (name m, dev m)) (first_occurrences xs))" for xs
    using distinct_first_occurrences [of xs]
    by (simp add: distinct_map inj_on_def)
  have t: "\<forall>m \<in> set (first_occurrences (filter dev ms)). dev m"
    using set_first_occurrences_subset [of "filter dev ms"] by auto
  have p: "\<forall>m \<in> set (first_occurrences (filter (\<lambda>m. \<not> dev m) ms)). \<not> dev m"
    using set_first_occurrences_subset [of "filter (\<lambda>m. \<not> dev m) ms"] by auto
  have disj: "(\<lambda>m. (name m, dev m)) ` set (first_occurrences (filter dev ms))
        \<inter> (\<lambda>m. (name m, dev m)) ` set (first_occurrences (filter (\<lambda>m. \<not> dev m) ms)) = {}"
    using t p by blast
  show "distinct (map (\<lambda>m. (name m, dev m)) (deduplicate ms))"
    unfolding eq by (simp add: d1 disj)
  show "deduplicate [\<lparr>name = ''a'', dev = False\<rparr>, \<lparr>name = ''a'', dev = False\<rparr>, \<lparr>name = ''a'', dev = True\<rparr>]
       = [\<lparr>name = ''a'', dev = True\<rparr>, \<lparr>name = ''a'', dev = False\<rparr>]"
    by (simp add: deduplicate_def deduplicateSimilarModules_def)
qed

section \<open>Extraction\<close>

lemma name_char_not_special: "name_char c \<Longrightarrow> c \<noteq> CHR '')'' \<and> \<not> line_terminator c"
  by (auto simp: name_char_def in_range_def line_terminator_def)

lemma lazy_dots_close_inner:
  "\<forall>c \<in> set s. c \<noteq> CHR '')'' \<and> \<not> line_terminator c \<Longrightarrow>
     lazy_dots_close acc (s @ CHR '')'' # rest) = Some (acc @ s @ '')'')"
  by (induction s arbitrary: acc) simp_all

lemma match_at_require_call:
  assumes "regex_test x"
  shows "match_at (require_call x @ rest) = Some (require_call x)"
proof -
  have q: "\<forall>c \<in> set (CHR 0x22 # x @ [CHR 0x22]). c \<noteq> CHR '')'' \<and> \<not> line_terminator c"
    using assms name_char_not_special
    by (auto simp: regex_test_def list_all_iff line_terminator_def)
  have "match_at (require_call x @ rest)
          = lazy_dots_close ''require('' ((CHR 0x22 # x @ [CHR 0x22]) @ CHR '')'' # rest)"
    by (simp add: match_at_def require_call_def)
  also have "\<dots> = Some (''require('' @ (CHR 0x22 # x @ [CHR 0x22]) @ '')'')"
    using q by (rule lazy_dots_close_inner)
  finally show ?thesis by (simp add: require_call_def)
qed

lemma match_scan_skip: "match_scan (length xs) (xs @ r) = match_scan 0 r"
  by (induction xs) simp_all

lemma match_scan_require_call:
  assumes "regex_test x"
  shows "match_scan 0 (require_call x @ r) = require_call x # match_scan 0 r"
proof -
  obtain t where t: "require_call x = CHR ''r'' # t"
    by (simp add: require_call_def)
  have "match_scan 0 (CHR ''r'' # t @ r) = require_call x # match_scan (length t) (t @ r)"
    using match_at_require_call [OF assms, of r] by (simp add: t)
  then show ?thesis
    by (simp add: t match_scan_skip)
qed

lemma no_straddle:
  assumes g: "g \<noteq> []" and ng: "\<not> prefix ''require('' g"
    and R: "R = [] \<or> prefix ''require('' R"
  shows "\<not> prefix ''require('' (g @ R)"
proof
  assume "prefix ''require('' (g @ R)"
  with ng obtain us where us: "''require('' = g @ us" and usR: "prefix us R"
    by (auto simp: prefix_append)
  have us_ne: "us \<noteq> []"
    using us ng by auto
  with usR R have PR: "prefix ''require('' R"
    by auto
  have "length us \<le> length ''require(''"
    by (simp add: us)
  with usR PR have "prefix us (''require'' @ [CHR ''(''])"
    using prefix_length_prefix [of us R "''require(''"] by simp
  then have "us = ''require'' @ [CHR ''(''] \<or> prefix us ''require''"
    by (simp only: prefix_snoc)
  then show False
  proof
    assume "us = ''require'' @ [CHR ''('']"
    with us g show False by simp
  next
    assume "prefix us ''require''"
    then have sub: "set us \<subseteq> set ''require''"
      by (rule set_mono_prefix)
    have "last (g @ us) = last us"
      using us_ne by simp
    then have "last ''require('' = last us"
      by (simp only: us [symmetric])
    then have "CHR ''('' \<in> set us"
      using us_ne last_in_set [of us] by simp
    with sub show False by auto
  qed
qed

lemma str_indexOf_neg_Cons:
  "str_indexOf (c # cs) pat < 0 \<longleftrightarrow> \<not> prefix pat (c # cs) \<and> str_indexOf cs pat < 0"
  by (simp add: Let_def)

lemma free_of_require_Cons:
  "free_of_require (c # g) \<longleftrightarrow> \<not> prefix ''require('' (c # g) \<and> free_of_require g"
  unfolding free_of_require_def by (rule str_indexOf_neg_Cons)

lemma match_at_no_prefix: "\<not> prefix ''require('' s \<Longrightarrow> match_at s = None"
  by (simp add: match_at_def)

lemma match_scan_gap:
  assumes "free_of_require g" and "R = [] \<or> prefix ''require('' R"
  shows "match_scan 0 (g @ R) = match_scan 0 R"
  using assms(1)
proof (induction g)
  case Nil
  show ?case by simp
next
  case (Cons c g)
  from Cons.prems have np: "\<not> prefix ''require('' (c # g)" and fg: "free_of_require g"
    using free_of_require_Cons [of c g] by blast+
  have "\<not> prefix ''require('' ((c # g) @ R)"
    using np assms(2) by (intro no_straddle) simp_all
  then have "match_at (c # g @ R) = None"
    by (simp add: match_at_no_prefix)
  then have "match_scan 0 ((c # g) @ R) = match_scan 0 (g @ R)"
    by simp
  with Cons.IH [OF fg] show ?case by simp
qed

lemma prefix_require_call: "prefix ''require('' (require_call x @ r)"
  by (simp add: require_call_def)

lemma match_scan_source_text:
  assumes "free_of_require g0" and "\<forall>(x, g) \<in> set calls. regex_test x \<and> free_of_require g"
  shows "match_scan 0 (source_text g0 calls) = map (\<lambda>(x, g). require_call x) calls"
  using assms
proof (induction calls arbitrary: g0)
  case Nil
  then show ?case
    using match_scan_gap [of g0 "[]"] by (simp add: source_text_def)
next
  case (Cons a calls)
  obtain x g where a: "a = (x, g)" by (cases a)
  from Cons.prems a have x: "regex_test x" and g: "free_of_require g"
    and rest: "\<forall>(x, g) \<in> set calls. regex_test x \<and> free_of_require g"
    by simp_all
  have st: "source_text g0 (a # calls) = g0 @ (require_call x @ source_text g calls)"
    by (simp add: source_text_def a)
  have "match_scan 0 (source_text g0 (a # calls)) = match_scan 0 (require_call x @ source_text g calls)"
    unfolding st using Cons.prems(1) prefix_require_call by (intro match_scan_gap) simp_all
  also have "\<dots> = require_call x # match_scan 0 (source_text g calls)"
    using x by (rule match_scan_require_call)
  finally show ?case
    using Cons.IH [OF g rest] by (simp add: a)
qed

lemma strip_call_require_call: "strip_call (require_call x) = x"
  by (simp add: strip_call_def require_call_def substring_from_def substring_def Let_def)

lemma isValidModule_JStr: "isValidModule (JStr s) = Inr True"
  by (simp add: isValidModule_def regex_test_def name_char_def in_range_def)

lemma collect_modules_all: "collect_modules ms acc = Inr (acc @ map strip_call ms)"
  by (induction ms arbitrary: acc) (simp_all add: isValidModule_JStr)

text \<open>
  Claim C3, as amended. A file text in which \<^verbatim>\<open>require(\<close> occurs only at the start
  of its \<open>n\<close> call expressions \<^verbatim>\<open>require("x")\<close>, each with a name matching the
  name pattern, yields exactly the \<open>n\<close> names, in order: the text is \<open>n\<close> calls
  separated by stretches in which \<^verbatim>\<open>require(\<close> does not occur. Nothing is assumed
  about line breaks in the stretches, so several calls may share a line; the names need
  not even be distinct. Nothing is said of a text in which \<^verbatim>\<open>require(\<close> occurs
  elsewhere.
\<close>

theorem extraction_yields_require_calls:
  assumes "free_of_require g0"
    and "\<forall>(x, g) \<in> set calls. regex_test x \<and> free_of_require g"
  shows "getModulesFromFile (files(path \<mapsto> source_text g0 calls)) path = Inr (map fst calls)"
proof -
  have ms: "match_scan 0 (source_text g0 calls) = map (\<lambda>(x, g). require_call x) calls"
    using assms by (rule match_scan_source_text)
  have strip: "map strip_call (map (\<lambda>(x, g). require_call x) calls) = map fst calls"
    by (induction calls) (auto simp: strip_call_require_call)
  show ?thesis
  proof (cases calls)
    case Nil
    with ms show ?thesis
      by (simp add: getModulesFromFile_def str_match_def)
  next
    case (Cons a as)
    with ms strip show ?thesis
      by (simp add: getModulesFromFile_def str_match_def collect_modules_all split: list.splits prod.splits)
  qed
qed

theorem extraction_yields_require_calls_witness:
  "free_of_require ''var a = ''
   \<and> regex_test ''lodash'' \<and> free_of_require ''; var b = ''
   \<and> regex_test ''my-lib_2'' \<and> free_of_require '';''
   \<and> getModulesFromFile
        [''index.js'' \<mapsto> source_text ''var a = '' [(''lodash'', ''; var b = ''), (''my-lib_2'', '';'')]]
        ''index.js''
      = Inr [''lodash'', ''my-lib_2'']"
proof -
  have h0: "free_of_require ''var a = ''"
    by (simp add: free_of_require_def)
  have h1: "regex_test ''lodash'' \<and> free_of_require ''; var b = ''"
    by (simp add: regex_test_def name_char_def in_range_def free_of_require_def)
  have h2: "regex_test ''my-lib_2'' \<and> free_of_require '';''"
    by (simp add: regex_test_def name_char_def in_range_def free_of_require_def)
  have h: "\<forall>(x, g) \<in> set [(''lodash'', ''; var b = ''), (''my-lib_2'', '';'')].
         regex_test x \<and> free_of_require g"
    using h1 h2 by simp
  show ?thesis
    using h0 h1 h2 extraction_yields_require_calls [OF h0 h, of Map.empty "''index.js''"] by simp
qed

text \<open>
  Claim C3 as first stated, for every text that holds \<open>n\<close> well-formed calls, fails:
  the pattern matches every \<^verbatim>\<open>require(...)\<close> on a line, also inside a comment.
  The text below holds one well-formed call, and the extraction returns two names; the
  extra one matches the name pattern itself.
\<close>

theorem extraction_of_unquoted_occurrence:
  "getModulesFromFile
     [''index.js'' \<mapsto> ''// do not require(anything) here'' @ [CHR 0x0A] @ require_call ''lodash'']
     ''index.js''
   = Inr [''nythin'', ''lodash'']
   \<and> getModulesFromFile
     [''index.js'' \<mapsto> ''// do not require(anything) here'' @ [CHR 0x0A] @ require_call ''lodash'']
     ''index.js''
   \<noteq> Inr [''lodash'']
   \<and> regex_test ''nythin''
   \<and> \<not> free_of_require ''// do not require(anything) here''"
  by (simp add: getModulesFromFile_def str_match_def match_at_def line_terminator_def
      require_call_def strip_call_def substring_from_def substring_def isValidModule_def
      regex_test_def name_char_def in_range_def free_of_require_def)

section \<open>Validation as the extraction calls it\<close>

lemma isValidModule_on_module:
  "isValidModule (JModule m) = Inr (regex_test (name m))"
  by (simp add: isValidModule_def)

lemma regex_test_examples:
  "\<not> regex_test ''Foo''" "\<not> regex_test ''@scope/pkg''" "\<not> regex_test ''../x''" "\<not> regex_test ''''"
  "regex_test ''lodash''" "regex_test ''my-lib_2''"
  by (simp_all add: regex_test_def name_char_def in_range_def)

text \<open>
  Claim C1. The extraction loop hands \<^verbatim>\<open>isValidModule\<close> the candidate string
  itself. The parameter pattern then reads the property \<^verbatim>\<open>name\<close> of a string, which
  is \<^verbatim>\<open>undefined\<close>, and the regular expression is tested on the text
  \<^verbatim>\<open>undefined\<close>: the four strings that the validator has to reject are accepted.
\<close>

theorem isValidModule_accepts_every_string:
  "isValidModule (JStr ''Foo'') = Inr True
   \<and> isValidModule (JStr ''@scope/pkg'') = Inr True
   \<and> isValidModule (JStr ''../x'') = Inr True
   \<and> isValidModule (JStr '''') = Inr True"
  by (simp add: isValidModule_def regex_test_def name_char_def in_range_def)

text \<open>
  Claim C2. For a file that holds only \<^verbatim>\<open>require(someVariable)\<close> the extraction
  returns one candidate, the argument without its first and its last character.
\<close>

theorem extraction_of_variable_argument:
  "getModulesFromFile [''index.js'' \<mapsto> ''require(someVariable)''] ''index.js'' = Inr [''omeVariabl'']"
  by (simp add: getModulesFromFile_def str_match_def match_at_def line_terminator_def
      strip_call_def substring_from_def substring_def isValidModule_def regex_test_def
      name_char_def in_range_def)

section \<open>Classification\<close>

lemma str_indexOf_zero_iff: "str_indexOf s pat = 0 \<longleftrightarrow> prefix pat s"
  by (cases s) (auto simp: Let_def)

lemma filterRegistryModules_filter:
  "filterRegistryModules isBuiltInModule ms =
     filter (\<lambda>m. \<not> isBuiltInModule (name m) \<and> \<not> prefix ''./'' (name m)) ms"
  by (simp add: filterRegistryModules_def removeBuiltInModules_def removeLocalFiles_def
      str_indexOf_zero_iff conj_commute)

text \<open>
  Claim C6. \<^verbatim>\<open>filterRegistryModules\<close> removes a built-in name and a name that begins
  with \<^verbatim>\<open>./\<close>, but a name that begins with \<^verbatim>\<open>../\<close> stays in the result.
\<close>

theorem filterRegistryModules_keeps_parent_path:
  "filterRegistryModules (\<lambda>n. n \<in> set [''fs'', ''path'', ''http''])
     [\<lparr>name = ''fs'', dev = False\<rparr>, \<lparr>name = ''./utils'', dev = False\<rparr>,
      \<lparr>name = ''../utils'', dev = False\<rparr>, \<lparr>name = ''lodash'', dev = False\<rparr>]
   = [\<lparr>name = ''../utils'', dev = False\<rparr>, \<lparr>name = ''lodash'', dev = False\<rparr>]"
  by (simp add: filterRegistryModules_filter)

section \<open>Trust gate and apply actions\<close>

lemma isModulePopular_never_true:
  "isModulePopular request json_downloads v = Inr r \<Longrightarrow> r = JUndefined"
  by (auto simp: isModulePopular_def Let_def split: sum.splits)

text \<open>
  Claim C7. With an oracle that answers at once and reports fifty million downloads,
  \<^verbatim>\<open>isModulePopular\<close> still yields \<^verbatim>\<open>undefined\<close>, and \<^verbatim>\<open>installModule\<close> in
  secure mode reports the module as not trusted without running any command.
\<close>

theorem isModulePopular_undefined_for_popular_module:
  "isModulePopular (\<lambda>method url cb. cb JUndefined JUndefined ''body'') (\<lambda>body. Inr 50000000)
      (JStr ''lodash'') = Inr JUndefined
   \<and> installModule True (\<lambda>method url cb. cb JUndefined JUndefined ''body'') (\<lambda>body. Inr 50000000)
      (\<lambda>command. 0) \<lparr>name = ''lodash'', dev = False\<rparr>
     = ([SpinnerStart ''Installing lodash'' ''green'', SpinnerStop,
         ConsoleLog Sym_warning ''lodash not trusted''], Inr ())"
  by (simp add: isModulePopular_def installModule_def popularity_callback_def
      POPULARITY_THRESHOLD_def startSpinner_def stopSpinner_def)

lemma installModule_reports_failure:
  "ConsoleLog Sym_warning (name m @ '' installation failed'')
     \<in> set (fst (installModule False request json_downloads syncExec m))
   \<longleftrightarrow> syncExec (''npm install '' @ name m @ (if dev m then '' --save-dev'' else '' --save'')) \<noteq> 0"
  by (simp add: installModule_def runCommand_def startSpinner_def stopSpinner_def Let_def)

text \<open>
  Claim C8. \<^verbatim>\<open>uninstallModule\<close> with a command that exits with status \<open>1\<close> reports
  the module as removed; its trace is the same for every exit status.
\<close>

theorem uninstallModule_ignores_status:
  "uninstallModule (\<lambda>command. 1) \<lparr>name = ''lodash'', dev = False\<rparr>
     = ([SpinnerStart ''Uninstalling lodash'' ''red'', Exec ''npm uninstall lodash --save'',
         SpinnerStop, ConsoleLog Sym_error ''lodash removed''], Inr ())
   \<and> uninstallModule syncExec m = uninstallModule (\<lambda>command. 0) m"
  by (simp add: uninstallModule_def runCommand_def startSpinner_def stopSpinner_def Let_def)

section \<open>File discovery ignores its argument\<close>

text \<open>
  Claim C10. For a fixed state of the file system, \<^verbatim>\<open>getFiles\<close> returns the same
  list for any two arguments: the glob of \<^verbatim>\<open>**/*.js\<close> under the current working
  directory with \<^verbatim>\<open>node_modules\<close> ignored.
\<close>

theorem getFiles_ignores_path:
  "getFiles glob_sync p1 = getFiles glob_sync p2
   \<and> getFiles glob_sync p1 = glob_sync ''**/*.js'' [''node_modules/**/*'']"
  by (simp add: getFiles_def)

end
